theory Spec2Isabelle
  imports Main "HOL-Library.Word"
begin

unbundle bit_operations_syntax

section \<open>The Eizo FlexScan HID driver (eizo.c)\<close>

text \<open>
  A shallow embedding of \<^verbatim>\<open>src/eizo.c\<close>: the two protocol functions
  \<^verbatim>\<open>eizo_set_value\<close> and \<^verbatim>\<open>eizo_get_value\<close>, the session initialiser
  \<^verbatim>\<open>eizo_data_init\<close> and the notification handler
  \<^verbatim>\<open>eizo_hid_driver_raw_event\<close>. Every statement of the C functions is a step of
  the model, in source order. What C leaves to the machine is written out: a pointer is
  a value that may be NULL or an encoded errno, a store through NULL or past the end of
  an object is a fault, and a \<^verbatim>\<open>mutex_lock\<close> on a held mutex does not return.
  The frame lives for one call, so \<^verbatim>\<open>kfree\<close> is the end of its scope. The sysfs
  attribute, the probe and the remove callbacks only call into what is modelled here.
\<close>

subsection \<open>Machine types, pointers and errno values\<close>

type_synonym u8 = "8 word"
type_synonym u16 = "16 word"
type_synonym u32 = "32 word"

text \<open>
  A kernel pointer as the driver tests it. \<^verbatim>\<open>IS_ERR\<close> (linux/err.h) is true exactly
  for the addresses of the last page, which encode an errno (\<^verbatim>\<open>ERR_PTR\<close>); it is false
  for NULL and for the address of an object.
\<close>

datatype 'a kptr = NULL | ERR_PTR int | Obj 'a

fun IS_ERR :: "'a kptr \<Rightarrow> bool" where
  "IS_ERR (ERR_PTR e) = True"
| "IS_ERR NULL = False"
| "IS_ERR (Obj x) = False"

definition ENOMEM :: int where "ENOMEM = 12"
definition EINVAL :: int where "EINVAL = 22"
definition ENODATA :: int where "ENODATA = 61"

text \<open>
  \<^verbatim>\<open>kzalloc(size, GFP_KERNEL)\<close> (linux/slab.h) returns the address of \<open>size\<close> zeroed
  bytes, or NULL when the memory cannot be obtained; it never returns an \<^verbatim>\<open>ERR_PTR\<close>.
  Whether memory is available is the environment's choice, the first argument.
\<close>

definition kzalloc :: "bool \<Rightarrow> nat \<Rightarrow> u8 list kptr" where
  "kzalloc mem_ok n = (if mem_ok then Obj (replicate n 0) else NULL)"

text \<open>How a call ends: it returns an \<^verbatim>\<open>int\<close>, it faults, or it sleeps on the mutex.\<close>

datatype fault = NullDeref | OutOfBounds

datatype outcome = Returned int | Faulted fault | Blocked

text \<open>
  \<^verbatim>\<open>memcpy(dst + doff, src + soff, n)\<close> on objects of known extent: the copy is
  defined only when both ranges lie inside their objects.
\<close>

definition memcpy :: "u8 list \<Rightarrow> nat \<Rightarrow> u8 list \<Rightarrow> nat \<Rightarrow> nat \<Rightarrow> u8 list option" where
  "memcpy dst doff src soff n =
     (if doff + n \<le> length dst \<and> soff + n \<le> length src
      then Some (take doff dst @ take n (drop soff src) @ drop (doff + n) dst)
      else None)"

subsection \<open>The session and the device\<close>

text \<open>\<^verbatim>\<open>struct eizo_data\<close>: the mutex (held or free) and the sequence counter.\<close>

record eizo_data =
  lock :: bool
  counter :: u16

datatype hid_report_type = HID_INPUT_REPORT | HID_OUTPUT_REPORT | HID_FEATURE_REPORT

datatype hid_class_request = HID_REQ_GET_REPORT | HID_REQ_SET_REPORT

text \<open>One call of \<^verbatim>\<open>hid_hw_raw_request\<close>, with the buffer's contents at the call.\<close>

record raw_request =
  rq_reportnum :: u8
  rq_buf :: "u8 list"
  rq_len :: nat
  rq_rtype :: hid_report_type
  rq_reqtype :: hid_class_request

text \<open>The lines the driver prints with \<^verbatim>\<open>hid_err\<close> and \<^verbatim>\<open>hid_info\<close>, by their arguments.\<close>

datatype log_line =
  Failed_get_eizo_data
| Failed_allocate_report
| Failed_set_report int
| Failed_get_report int
| Event u8 u32 u16 u32
| Event_id u32

text \<open>
  \<^verbatim>\<open>struct hid_device\<close>, as far as the driver sees it: the driver data pointer, the
  state of the low-level transport (the monitor behind it), the requests issued so far
  and the kernel log.
\<close>

record 'd hid_device =
  driver_data :: "eizo_data kptr"
  ll_state :: 'd
  ll_requests :: "raw_request list"
  klog :: "log_line list"

text \<open>
  The transport primitive is external: given its state and a request it yields the
  status, the bytes it stored at the start of the buffer, and its next state.
\<close>

type_synonym 'd ll_driver = "'d \<Rightarrow> raw_request \<Rightarrow> int \<times> u8 list \<times> 'd"

definition hid_get_drvdata :: "'d hid_device \<Rightarrow> eizo_data kptr" where
  "hid_get_drvdata hdev = driver_data hdev"

definition hid_set_drvdata :: "'d hid_device \<Rightarrow> eizo_data kptr \<Rightarrow> 'd hid_device" where
  "hid_set_drvdata hdev data = hdev\<lparr>driver_data := data\<rparr>"

definition hid_err :: "'d hid_device \<Rightarrow> log_line \<Rightarrow> 'd hid_device" where
  "hid_err hdev l = hdev\<lparr>klog := klog hdev @ [l]\<rparr>"

definition hid_info :: "'d hid_device \<Rightarrow> log_line \<Rightarrow> 'd hid_device" where
  "hid_info hdev l = hdev\<lparr>klog := klog hdev @ [l]\<rparr>"

text \<open>
  \<^verbatim>\<open>hid_hw_raw_request(hdev, reportnum, buf, len, rtype, reqtype)\<close>: the request is
  handed to the transport, which may overwrite at most \<open>len\<close> bytes from the start of
  the buffer (\<open>stored_in\<close>: the buffer with the bytes the transport stored). The result
  is the status, the buffer afterwards and the device afterwards.
\<close>

definition stored_in :: "u8 list \<Rightarrow> nat \<Rightarrow> u8 list \<Rightarrow> u8 list" where
  "stored_in buf len stored =
     (let wr = take (min len (length buf)) stored in wr @ drop (length wr) buf)"

definition hid_hw_raw_request ::
  "'d ll_driver \<Rightarrow> 'd hid_device \<Rightarrow> u8 \<Rightarrow> u8 list \<Rightarrow> nat \<Rightarrow> hid_report_type \<Rightarrow>
     hid_class_request \<Rightarrow> int \<times> u8 list \<times> 'd hid_device" where
  "hid_hw_raw_request ll hdev reportnum buf len rtype reqtype =
     (let rq = \<lparr>rq_reportnum = reportnum, rq_buf = buf, rq_len = len,
                 rq_rtype = rtype, rq_reqtype = reqtype\<rparr>;
          (ret, stored, s) = ll (ll_state hdev) rq
      in (ret, stored_in buf len stored,
          hdev\<lparr>ll_state := s, ll_requests := ll_requests hdev @ [rq]\<rparr>))"

text \<open>\<^verbatim>\<open>mutex_unlock(&data->lock)\<close> on the session the device points to.\<close>

definition mutex_unlock :: "'d hid_device \<Rightarrow> 'd hid_device" where
  "mutex_unlock hdev =
     (case driver_data hdev of
        Obj d \<Rightarrow> hdev\<lparr>driver_data := Obj (d\<lparr>lock := False\<rparr>)\<rparr>
      | _ \<Rightarrow> hdev)"

text \<open>
  \<^verbatim>\<open>mutex_lock(&data->lock)\<close> on a free mutex: the session with the mutex taken. The
  callers test \<open>lock d\<close> first: on a held mutex the call sleeps (\<open>Blocked\<close>).
\<close>

definition mutex_lock :: "'d hid_device \<Rightarrow> eizo_data \<Rightarrow> 'd hid_device" where
  "mutex_lock hdev d = hdev\<lparr>driver_data := Obj (d\<lparr>lock := True\<rparr>)\<rparr>"

subsection \<open>The protocol functions\<close>

text \<open>
  The six header stores of both functions (lines 36-42 and 80-86): the usage in bytes
  1-4 and the counter in bytes 5-6, least significant byte first.
\<close>

definition put_header :: "u8 list \<Rightarrow> u32 \<Rightarrow> u16 \<Rightarrow> u8 list" where
  "put_header report usage cnt =
     report
       [1 := ucast (drop_bit 0 usage AND 0xff),
        2 := ucast (drop_bit 8 usage AND 0xff),
        3 := ucast (drop_bit 16 usage AND 0xff),
        4 := ucast (drop_bit 24 usage AND 0xff),
        5 := ucast (drop_bit 0 cnt AND 0xff),
        6 := ucast (drop_bit 8 cnt AND 0xff)]"

text \<open>
  \<^verbatim>\<open>eizo_set_value(hdev, usage, value, len)\<close>. \<open>ll\<close> is the transport and \<open>mem_ok\<close>
  the allocator's answer. The result is how the call ends and the device afterwards
  (at a fault or a block: the device at that point).
\<close>

definition eizo_set_value ::
  "'d ll_driver \<Rightarrow> bool \<Rightarrow> 'd hid_device \<Rightarrow> u32 \<Rightarrow> u8 list \<Rightarrow> nat \<Rightarrow> outcome \<times> 'd hid_device" where
  "eizo_set_value ll mem_ok hdev usage val len =
     (let data = hid_get_drvdata hdev in
      if IS_ERR data then (Returned (- ENODATA), hdev)
      else
        let report = kzalloc mem_ok 39 in
        if IS_ERR report then (Returned (- ENOMEM), hdev)
        else
          case data of
            Obj d \<Rightarrow>
              if lock d then (Blocked, hdev)
              else
                let hdev1 = mutex_lock hdev d;
                    cnt = counter d
                in (case report of
                      Obj r0 \<Rightarrow>
                        (case memcpy (put_header r0 usage cnt) 7 val 0 len of
                           Some r1 \<Rightarrow>
                             let (ret, r2, hdev2) =
                                   hid_hw_raw_request ll hdev1 2 r1 39
                                     HID_FEATURE_REPORT HID_REQ_SET_REPORT
                             in if ret < 0
                                then (Returned ret, mutex_unlock (hid_err hdev2 (Failed_set_report ret)))
                                else (Returned 0, mutex_unlock hdev2)
                         | None \<Rightarrow> (Faulted OutOfBounds, hdev1))
                    | _ \<Rightarrow> (Faulted NullDeref, hdev1))
          | _ \<Rightarrow> (Faulted NullDeref, hdev))"

text \<open>
  \<^verbatim>\<open>eizo_get_value(hdev, usage, value, len)\<close>. \<open>val\<close> is the caller's buffer; the
  result also gives that buffer afterwards.
\<close>

definition eizo_get_value ::
  "'d ll_driver \<Rightarrow> bool \<Rightarrow> 'd hid_device \<Rightarrow> u32 \<Rightarrow> u8 list \<Rightarrow> nat \<Rightarrow>
     outcome \<times> u8 list \<times> 'd hid_device" where
  "eizo_get_value ll mem_ok hdev usage val len =
     (let data = hid_get_drvdata hdev in
      if IS_ERR data then (Returned (- ENODATA), val, hid_err hdev Failed_get_eizo_data)
      else
        let report = kzalloc mem_ok 39 in
        if IS_ERR report then (Returned (- ENOMEM), val, hid_err hdev Failed_allocate_report)
        else
          case data of
            Obj d \<Rightarrow>
              if lock d then (Blocked, val, hdev)
              else
                let hdev1 = mutex_lock hdev d;
                    cnt = counter d
                in (case report of
                      Obj r0 \<Rightarrow>
                        let (ret, r1, hdev2) =
                              hid_hw_raw_request ll hdev1 3 (put_header r0 usage cnt) 39
                                HID_FEATURE_REPORT HID_REQ_SET_REPORT
                        in if ret < 0
                           then (Returned ret, val, mutex_unlock (hid_err hdev2 (Failed_set_report ret)))
                           else
                             let (ret', r2, hdev3) =
                                   hid_hw_raw_request ll hdev2 3 r1 39
                                     HID_FEATURE_REPORT HID_REQ_GET_REPORT
                             in if ret' < 0
                                then (Returned ret', val,
                                      mutex_unlock (hid_err hdev3 (Failed_get_report ret')))
                                else
                                  (case memcpy val 0 r2 7 len of
                                     Some val' \<Rightarrow> (Returned 0, val', mutex_unlock hdev3)
                                   | None \<Rightarrow> (Faulted OutOfBounds, val, hdev3))
                    | _ \<Rightarrow> (Faulted NullDeref, val, hdev1))
          | _ \<Rightarrow> (Faulted NullDeref, val, hdev))"

subsection \<open>Session start and notifications\<close>

text \<open>\<^verbatim>\<open>eizo_data_init\<close>: \<^verbatim>\<open>mutex_init\<close> leaves the mutex free; the counter is 1.\<close>

definition eizo_data_init :: "eizo_data \<Rightarrow> eizo_data" where
  "eizo_data_init data = data\<lparr>lock := False, counter := 0x0001\<rparr>"

text \<open>
  \<^verbatim>\<open>eizo_hid_driver_raw_event(hdev, report, data, size)\<close>, with \<open>report_id\<close> for
  \<^verbatim>\<open>report->id\<close> and \<open>data\<close> the bytes \<^verbatim>\<open>data\<close> points to. The bytes are combined
  in \<^verbatim>\<open>int\<close> (32 bits) and then stored in the \<^verbatim>\<open>u32\<close> and \<^verbatim>\<open>u16\<close> locals. The function
  reads \<^verbatim>\<open>data[0]\<close> to \<^verbatim>\<open>data[10]\<close> whatever \<^verbatim>\<open>size\<close> (here \<open>sz\<close>) is.
\<close>

definition eizo_hid_driver_raw_event ::
  "'d hid_device \<Rightarrow> u32 \<Rightarrow> u8 list \<Rightarrow> int \<Rightarrow> outcome \<times> 'd hid_device" where
  "eizo_hid_driver_raw_event hdev report_id data sz =
     (if report_id = 0x02 \<or> report_id = 0x03 then
        if 10 < length data then
          let id = data ! 0;
              usage = (((ucast (data ! 1) OR push_bit 8 (ucast (data ! 2)))
                         OR push_bit 16 (ucast (data ! 3))) OR push_bit 24 (ucast (data ! 4)) :: 32 word);
              cnt = (ucast (ucast (data ! 5) OR push_bit 8 (ucast (data ! 6)) :: 32 word) :: u16);
              v = (((ucast (data ! 7) OR push_bit 8 (ucast (data ! 8)))
                     OR push_bit 16 (ucast (data ! 9))) OR push_bit 24 (ucast (data ! 10)) :: 32 word)
          in (Returned 0, hid_info hdev (Event id usage cnt v))
        else (Faulted OutOfBounds, hdev)
      else (Returned 0, hid_info hdev (Event_id report_id)))"

subsection \<open>The session's life\<close>

text \<open>
  The probe installs the session with \<^verbatim>\<open>hid_set_drvdata\<close> and initialises it with
  \<^verbatim>\<open>eizo_data_init\<close> (lines 196-197); from then on the device changes only through
  the three entry points, with any arguments, any transport behaviour and any answer of
  the allocator. A state in which a call faulted or blocked is reachable too.
\<close>

inductive reachable :: "'d hid_device \<Rightarrow> bool" where
  probed: "reachable (hid_set_drvdata hdev (Obj (eizo_data_init d)))"
| after_set: "reachable hdev \<Longrightarrow> eizo_set_value ll mem_ok hdev usage val len = (oc, hdev') \<Longrightarrow>
    reachable hdev'"
| after_get: "reachable hdev \<Longrightarrow> eizo_get_value ll mem_ok hdev usage val len = (oc, val', hdev') \<Longrightarrow>
    reachable hdev'"
| after_event: "reachable hdev \<Longrightarrow> eizo_hid_driver_raw_event hdev report_id data sz = (oc, hdev') \<Longrightarrow>
    reachable hdev'"

text \<open>The exclusive token of the device's session is held.\<close>

definition token_held :: "'d hid_device \<Rightarrow> bool" where
  "token_held hdev = (case driver_data hdev of Obj d \<Rightarrow> lock d | _ \<Rightarrow> False)"

subsection \<open>The wire format as the specification words it\<close>

text \<open>
  The unsigned value of two and of four bytes, least significant byte first
  (``little-endian'').
\<close>

definition le16 :: "u8 \<Rightarrow> u8 \<Rightarrow> u16" where
  "le16 b0 b1 = word_of_nat (unat b0 + 256 * unat b1)"

definition le32 :: "u8 \<Rightarrow> u8 \<Rightarrow> u8 \<Rightarrow> u8 \<Rightarrow> u32" where
  "le32 b0 b1 b2 b3 =
     word_of_nat (unat b0 + 256 * unat b1 + 65536 * unat b2 + 16777216 * unat b3)"

text \<open>
  Bytes 0 to 6 of a frame: byte 0 zero, the usage in bytes 1-4 and the counter in bytes
  5-6, each byte written as the quotient and remainder that little-endian order means.
\<close>

definition header :: "u32 \<Rightarrow> u16 \<Rightarrow> u8 list" where
  "header usage cnt =
     [0,
      word_of_nat (unat usage mod 256),
      word_of_nat (unat usage div 256 mod 256),
      word_of_nat (unat usage div 65536 mod 256),
      word_of_nat (unat usage div 16777216 mod 256),
      word_of_nat (unat cnt mod 256),
      word_of_nat (unat cnt div 256 mod 256)]"

text \<open>A feature report request of 39 bytes, as both protocol functions issue it.\<close>

definition feature_request :: "u8 \<Rightarrow> u8 list \<Rightarrow> hid_class_request \<Rightarrow> raw_request" where
  "feature_request reportnum frame reqtype =
     \<lparr>rq_reportnum = reportnum, rq_buf = frame, rq_len = 39,
      rq_rtype = HID_FEATURE_REPORT, rq_reqtype = reqtype\<rparr>"

subsection \<open>Simulated transports and a probed device\<close>

text \<open>
  Modelled from the spec: the simulated transport of the round-trip property, which
  ``echoes the last-written payload region''. Its state is the payload region (bytes 7
  to 38) of the last frame written with report identifier 2; a set-report with another
  identifier (the arm call of a read) stores nothing; a get-report leaves bytes 0-6 of
  the caller's frame and stores the remembered region behind them. Every call succeeds
  and reports the 39 bytes transferred.
\<close>

definition echo_ll :: "u8 list ll_driver" where
  "echo_ll s rq =
     (if rq_reqtype rq = HID_REQ_SET_REPORT then
        if rq_reportnum rq = 2 then (39, [], drop 7 (rq_buf rq)) else (39, [], s)
      else (39, take 7 (rq_buf rq) @ s, s))"

text \<open>A transport whose every call fails with \<^verbatim>\<open>-EPIPE\<close> (a stalled endpoint).\<close>

definition stalled_ll :: "u8 list ll_driver" where
  "stalled_ll s rq = (- 32, [], s)"

text \<open>A device right after the probe: zeroed session memory, initialised.\<close>

definition probed_device :: "u8 list hid_device" where
  "probed_device =
     hid_set_drvdata \<lparr>driver_data = NULL, ll_state = [], ll_requests = [], klog = []\<rparr>
       (Obj (eizo_data_init \<lparr>lock = False, counter = 0\<rparr>))"

section \<open>Properties\<close>

subsection \<open>Shifts and masks are the bytes of the little-endian layout\<close>

lemma mask_byte: "(ucast (w AND 0xff :: 'a::len word) :: u8) = ucast w"
proof (rule bit_word_eqI)
  fix n assume "n < LENGTH(8)"
  then have "bit (0xff :: 'a word) n \<or> \<not> n < LENGTH('a)"
    using bit_mask_iff[where ?'a = "'a word" and m = 8 and n = n]
    by (auto simp add: mask_eq_exp_minus_1 possible_bit_word)
  then show "bit (ucast (w AND 0xff) :: u8) n = bit (ucast w :: u8) n"
    by (auto simp add: bit_word_ucast_iff bit_and_iff dest: bit_imp_le_length)
qed

lemma byte_of_nat_mod: "(word_of_nat (n mod 256) :: u8) = word_of_nat n"
  by (simp add: word_of_nat_eq_iff take_bit_eq_mod)

lemma ucast_drop_bit: "(ucast (drop_bit k (w::'a::len word)) :: u8) = word_of_nat (unat w div 2 ^ k)"
proof -
  have "(ucast (drop_bit k w) :: u8) = word_of_nat (unat (drop_bit k w))"
    by (simp only: of_nat_unat)
  also have "unat (drop_bit k w) = drop_bit k (unat w)"
    by (rule unat_drop_bit_eq)
  also have "drop_bit k (unat w) = unat w div 2 ^ k"
    by (rule drop_bit_eq_div)
  finally show ?thesis .
qed

lemma shifted_byte:
  "(ucast (drop_bit k (w::'a::len word) AND 0xff) :: u8) = word_of_nat (unat w div 2 ^ k mod 256)"
  by (simp only: mask_byte ucast_drop_bit byte_of_nat_mod)

lemma zeroed_39: "replicate 39 (0::u8) = 0 # 0 # 0 # 0 # 0 # 0 # 0 # replicate 32 0"
  by (simp add: numeral_eq_Suc)

lemma length_header: "length (header usage cnt) = 7"
  by (simp add: header_def)

lemma put_header_zeroed:
  "put_header (replicate 39 0) usage cnt = header usage cnt @ replicate 32 0"
proof -
  have "put_header (replicate 39 0) usage cnt =
      [0, ucast (drop_bit 0 usage AND 0xff), ucast (drop_bit 8 usage AND 0xff),
       ucast (drop_bit 16 usage AND 0xff), ucast (drop_bit 24 usage AND 0xff),
       ucast (drop_bit 0 cnt AND 0xff), ucast (drop_bit 8 cnt AND 0xff)] @ replicate 32 0"
    unfolding put_header_def zeroed_39 by simp
  also have "\<dots> = header usage cnt @ replicate 32 0"
    unfolding shifted_byte header_def by simp
  finally show ?thesis .
qed

text \<open>Read back as little-endian values, the header bytes are the usage and the counter.\<close>

lemma le32_header_bytes:
  "le32 (word_of_nat (unat usage mod 256)) (word_of_nat (unat usage div 256 mod 256))
        (word_of_nat (unat usage div 65536 mod 256)) (word_of_nat (unat usage div 16777216 mod 256))
     = usage"
  for usage :: u32
proof -
  define n where "n = unat usage"
  define a where "a = n div 256"
  define b where "b = a div 256"
  define c where "c = b div 256"
  have lt: "n < 4294967296"
    unfolding n_def using unsigned_less [of usage, where ?'a = nat] by simp
  have byte: "unat (word_of_nat (m mod 256) :: u8) = m mod 256" for m
    by (simp add: unat_of_nat take_bit_eq_mod)
  have d2: "n div 65536 = b"
    unfolding b_def a_def by (simp add: div_mult2_eq [symmetric])
  have d3: "n div 16777216 = c"
    unfolding c_def b_def a_def by (simp add: div_mult2_eq [symmetric])
  have "c < 256"
    using lt unfolding d3 [symmetric] by simp
  then have c: "c mod 256 = c"
    by simp
  have "n = n mod 256 + 256 * a" "a = a mod 256 + 256 * b" "b = b mod 256 + 256 * c"
    unfolding a_def b_def c_def by simp_all
  then have "n mod 256 + 256 * (a mod 256) + 65536 * (b mod 256) + 16777216 * c = n"
    by linarith
  then have "word_of_nat (n mod 256 + 256 * (a mod 256) + 65536 * (b mod 256)
       + 16777216 * (c mod 256)) = (word_of_nat n :: u32)"
    by (simp only: c)
  then show ?thesis
    unfolding le32_def byte n_def [symmetric] a_def [symmetric] d2 d3
    by (simp add: n_def)
qed

lemma header_usage:
  "le32 (header usage cnt ! 1) (header usage cnt ! 2) (header usage cnt ! 3) (header usage cnt ! 4)
     = usage"
  by (simp add: header_def le32_header_bytes)

lemma le16_header_bytes:
  "le16 (word_of_nat (unat cnt mod 256)) (word_of_nat (unat cnt div 256 mod 256)) = cnt"
  for cnt :: u16
proof -
  have lt: "unat cnt < 65536"
    using unsigned_less [of cnt, where ?'a = nat] by simp
  have b0: "unat (word_of_nat (unat cnt mod 256) :: u8) = unat cnt mod 256"
    by (simp add: unat_of_nat take_bit_eq_mod)
  have b1: "unat (word_of_nat (unat cnt div 256 mod 256) :: u8) = unat cnt div 256"
    using lt by (simp add: unat_of_nat take_bit_eq_mod)
  have "unat cnt mod 256 + 256 * (unat cnt div 256) = unat cnt"
    by simp
  then show ?thesis
    unfolding le16_def b0 b1 by simp
qed

lemma header_counter: "le16 (header usage cnt ! 5) (header usage cnt ! 6) = cnt"
  by (simp add: header_def le16_header_bytes)

subsection \<open>The write path\<close>

lemma memcpy_payload:
  "len \<le> 32 \<Longrightarrow> len \<le> length val \<Longrightarrow>
   memcpy (header usage cnt @ replicate 32 0) 7 val 0 len =
     Some (header usage cnt @ take len val @ replicate (32 - len) 0)"
  by (simp add: memcpy_def length_header)

lemma memcpy_payload_overrun:
  "32 < len \<Longrightarrow> memcpy (header usage cnt @ replicate 32 0) 7 val 0 len = None"
  by (simp add: memcpy_def length_header)

text \<open>What a write does on a usable session with an allocated frame and a fitting payload.\<close>

lemma set_value_valid:
  assumes "driver_data hdev = Obj d" "\<not> lock d" "len \<le> 32" "len \<le> length val"
    and "ll (ll_state hdev)
           (feature_request 2 (header usage (counter d) @ take len val @ replicate (32 - len) 0)
              HID_REQ_SET_REPORT) = (ret, stored, s)"
  shows "eizo_set_value ll True hdev usage val len =
    (Returned (if ret < 0 then ret else 0),
     hdev\<lparr>ll_state := s,
          ll_requests := ll_requests hdev @
            [feature_request 2 (header usage (counter d) @ take len val @ replicate (32 - len) 0)
               HID_REQ_SET_REPORT],
          klog := klog hdev @ (if ret < 0 then [Failed_set_report ret] else [])\<rparr>)"
  using assms
  by (simp add: eizo_set_value_def hid_get_drvdata_def kzalloc_def mutex_lock_def
      put_header_zeroed memcpy_payload hid_hw_raw_request_def mutex_unlock_def hid_err_def
      feature_request_def)

text \<open>
  C2. The frame of a write is bit-exact: with usage \<open>0x00000001\<close>, payload \<open>AA BB\<close> and
  sequence counter 1, whatever the transport does, the one request issued carries report
  identifier 2 and exactly the 39 bytes \<open>00 01 00 00 00 01 00 AA BB\<close> followed by 30
  zero bytes.
\<close>

theorem set_value_frame_bit_exact:
  "ll_requests (snd (eizo_set_value ll True
      \<lparr>driver_data = Obj \<lparr>lock = False, counter = 1\<rparr>, ll_state = s, ll_requests = [], klog = []\<rparr>
      0x00000001 [0xAA, 0xBB] 2)) =
   [\<lparr>rq_reportnum = 2,
     rq_buf = [0x00, 0x01, 0x00, 0x00, 0x00, 0x01, 0x00, 0xAA, 0xBB] @ replicate 30 0,
     rq_len = 39, rq_rtype = HID_FEATURE_REPORT, rq_reqtype = HID_REQ_SET_REPORT\<rparr>]"
proof -
  let ?hdev = "\<lparr>driver_data = Obj \<lparr>lock = False, counter = 1\<rparr>, ll_state = s,
                ll_requests = [], klog = []\<rparr>"
  let ?rq = "feature_request 2 (header 1 1 @ take 2 [0xAA, 0xBB] @ replicate (32 - 2) 0)
               HID_REQ_SET_REPORT"
  obtain ret stored s' where ll: "ll (ll_state ?hdev) ?rq = (ret, stored, s')"
    by (cases "ll (ll_state ?hdev) ?rq")
  have "eizo_set_value ll True ?hdev 0x00000001 [0xAA, 0xBB] 2 =
      (Returned (if ret < 0 then ret else 0),
       ?hdev\<lparr>ll_state := s', ll_requests := ll_requests ?hdev @ [?rq],
         klog := klog ?hdev @ (if ret < 0 then [Failed_set_report ret] else [])\<rparr>)"
    using ll set_value_valid [of ?hdev "\<lparr>lock = False, counter = 1\<rparr>" 2 "[0xAA, 0xBB]" ll 1 ret stored s']
    by simp
  then have "ll_requests (snd (eizo_set_value ll True ?hdev 0x00000001 [0xAA, 0xBB] 2)) = [?rq]"
    by simp
  then show ?thesis
    by (simp add: feature_request_def header_def)
qed

text \<open>
  C6. On valid input (a usable session, an allocated frame, a payload of at most 32
  bytes) a write issues exactly one transport call: a set-report of the feature report
  with identifier 2 and 39 bytes. If the call fails the write returns its status, and
  otherwise 0; the token is free again either way.
\<close>

theorem set_value_single_request:
  assumes "driver_data hdev = Obj d" and "\<not> lock d" and "len \<le> 32" and "len \<le> length val"
    and "ll (ll_state hdev)
           (feature_request 2 (header usage (counter d) @ take len val @ replicate (32 - len) 0)
              HID_REQ_SET_REPORT) = (ret, stored, s)"
  shows "fst (eizo_set_value ll True hdev usage val len) = Returned (if ret < 0 then ret else 0) \<and>
    ll_requests (snd (eizo_set_value ll True hdev usage val len)) =
      ll_requests hdev @
        [\<lparr>rq_reportnum = 2,
          rq_buf = header usage (counter d) @ take len val @ replicate (32 - len) 0,
          rq_len = 39, rq_rtype = HID_FEATURE_REPORT, rq_reqtype = HID_REQ_SET_REPORT\<rparr>] \<and>
    length (header usage (counter d) @ take len val @ replicate (32 - len) 0) = 39 \<and>
    driver_data (snd (eizo_set_value ll True hdev usage val len)) = Obj d"
  using assms by (simp add: set_value_valid feature_request_def length_header)

theorem set_value_single_request_witness:
  "fst (eizo_set_value stalled_ll True probed_device 1 [0xAA, 0xBB] 2) = Returned (- 32) \<and>
   ll_requests (snd (eizo_set_value stalled_ll True probed_device 1 [0xAA, 0xBB] 2)) =
     [\<lparr>rq_reportnum = 2,
       rq_buf = [0x00, 0x01, 0x00, 0x00, 0x00, 0x01, 0x00, 0xAA, 0xBB] @ replicate 30 0,
       rq_len = 39, rq_rtype = HID_FEATURE_REPORT, rq_reqtype = HID_REQ_SET_REPORT\<rparr>]"
  using set_value_single_request [of probed_device "\<lparr>lock = False, counter = 1\<rparr>" 2
      "[0xAA, 0xBB]" stalled_ll 1 "- 32" "[]" "[]"]
  by (simp add: probed_device_def hid_set_drvdata_def eizo_data_init_def stalled_ll_def header_def)

subsection \<open>The read path\<close>

lemma length_stored_in: "length (stored_in buf len stored) = length buf"
  by (simp add: stored_in_def Let_def min_def)

lemma memcpy_out:
  "length frame = 39 \<Longrightarrow>
   memcpy val 0 frame 7 len =
     (if len \<le> 32 \<and> len \<le> length val then Some (take len (drop 7 frame) @ drop len val)
      else None)"
  by (auto simp add: memcpy_def)

text \<open>What a read does on a usable session with an allocated frame.\<close>

lemma get_value_valid:
  assumes "driver_data hdev = Obj d" "\<not> lock d"
    and "ll (ll_state hdev)
           (feature_request 3 (header usage (counter d) @ replicate 32 0) HID_REQ_SET_REPORT)
         = (ret, st1, s1)"
    and "ll s1 (feature_request 3
           (stored_in (header usage (counter d) @ replicate 32 0) 39 st1) HID_REQ_GET_REPORT)
         = (ret', st2, s2)"
  shows "eizo_get_value ll True hdev usage val len =
    (let arm = feature_request 3 (header usage (counter d) @ replicate 32 0) HID_REQ_SET_REPORT;
         r1 = stored_in (header usage (counter d) @ replicate 32 0) 39 st1;
         fetch = feature_request 3 r1 HID_REQ_GET_REPORT;
         r2 = stored_in r1 39 st2
     in if ret < 0 then
          (Returned ret, val,
           hdev\<lparr>ll_state := s1, ll_requests := ll_requests hdev @ [arm],
                klog := klog hdev @ [Failed_set_report ret]\<rparr>)
        else if ret' < 0 then
          (Returned ret', val,
           hdev\<lparr>ll_state := s2, ll_requests := ll_requests hdev @ [arm, fetch],
                klog := klog hdev @ [Failed_get_report ret']\<rparr>)
        else if len \<le> 32 \<and> len \<le> length val then
          (Returned 0, take len (drop 7 r2) @ drop len val,
           hdev\<lparr>ll_state := s2, ll_requests := ll_requests hdev @ [arm, fetch]\<rparr>)
        else
          (Faulted OutOfBounds, val,
           hdev\<lparr>driver_data := Obj (d\<lparr>lock := True\<rparr>), ll_state := s2,
                ll_requests := ll_requests hdev @ [arm, fetch]\<rparr>))"
  using assms
  by (simp add: eizo_get_value_def hid_get_drvdata_def kzalloc_def mutex_lock_def
      put_header_zeroed hid_hw_raw_request_def mutex_unlock_def hid_err_def
      feature_request_def memcpy_out length_stored_in length_header Let_def)

subsection \<open>The exclusive token\<close>

text \<open>A call entered with the token free does not wait for it.\<close>

lemma set_value_not_blocked:
  "\<not> token_held hdev \<Longrightarrow> fst (eizo_set_value ll mem_ok hdev usage val len) \<noteq> Blocked"
  by (auto simp add: eizo_set_value_def token_held_def hid_get_drvdata_def Let_def
      split: kptr.splits prod.splits option.splits)

lemma get_value_not_blocked:
  "\<not> token_held hdev \<Longrightarrow> fst (eizo_get_value ll mem_ok hdev usage val len) \<noteq> Blocked"
  by (auto simp add: eizo_get_value_def token_held_def hid_get_drvdata_def Let_def
      split: kptr.splits prod.splits option.splits)

text \<open>The transport never touches the session.\<close>

lemma raw_request_driver_data:
  "hid_hw_raw_request ll hdev n buf len rt rq = (ret, buf', hdev') \<Longrightarrow>
   driver_data hdev' = driver_data hdev"
  by (auto simp add: hid_hw_raw_request_def Let_def split: prod.splits)

lemma raw_request_requests:
  "hid_hw_raw_request ll hdev n buf len rt rq = (ret, buf', hdev') \<Longrightarrow>
   ll_requests hdev' = ll_requests hdev @
     [\<lparr>rq_reportnum = n, rq_buf = buf, rq_len = len, rq_rtype = rt, rq_reqtype = rq\<rparr>]"
  by (auto simp add: hid_hw_raw_request_def Let_def split: prod.splits)

text \<open>
  A call that returns leaves the session as it found it; one that faults or blocks has
  at most taken the token. The counter is never written.
\<close>

lemma set_value_session:
  assumes "eizo_set_value ll mem_ok hdev usage val len = (oc, hdev')"
  shows "(\<forall>r. oc = Returned r \<longrightarrow> driver_data hdev' = driver_data hdev) \<and>
         (\<forall>d. driver_data hdev = Obj d \<longrightarrow>
            (\<exists>d'. driver_data hdev' = Obj d' \<and> counter d' = counter d))"
  using assms
  by (auto simp add: eizo_set_value_def hid_get_drvdata_def Let_def mutex_lock_def
      mutex_unlock_def hid_err_def hid_hw_raw_request_def
      split: kptr.splits prod.splits option.splits if_splits)

lemma get_value_session:
  assumes "eizo_get_value ll mem_ok hdev usage val len = (oc, val', hdev')"
  shows "(\<forall>r. oc = Returned r \<longrightarrow> driver_data hdev' = driver_data hdev) \<and>
         (\<forall>d. driver_data hdev = Obj d \<longrightarrow>
            (\<exists>d'. driver_data hdev' = Obj d' \<and> counter d' = counter d))"
  using assms
  by (auto simp add: eizo_get_value_def hid_get_drvdata_def Let_def mutex_lock_def
      mutex_unlock_def hid_err_def hid_hw_raw_request_def
      split: kptr.splits prod.splits option.splits if_splits)

text \<open>
  C4. On a read whose first transport call (the arm: a set-report with identifier 3)
  fails, that call is the only one issued, so the fetch never happens; the read returns
  the status of the arm call; the caller's buffer is as it was; and the token is free
  again, so that a following call does not wait for it.
\<close>

theorem get_value_arm_failure:
  assumes "driver_data hdev = Obj d" and "\<not> lock d"
    and "ll (ll_state hdev)
           (feature_request 3 (header usage (counter d) @ replicate 32 0) HID_REQ_SET_REPORT)
         = (ret, stored, s)"
    and "ret < 0"
  shows "eizo_get_value ll True hdev usage val len =
    (Returned ret, val,
     hdev\<lparr>ll_state := s,
          ll_requests := ll_requests hdev @
            [\<lparr>rq_reportnum = 3, rq_buf = header usage (counter d) @ replicate 32 0,
              rq_len = 39, rq_rtype = HID_FEATURE_REPORT, rq_reqtype = HID_REQ_SET_REPORT\<rparr>],
          klog := klog hdev @ [Failed_set_report ret]\<rparr>) \<and>
    \<not> token_held (snd (snd (eizo_get_value ll True hdev usage val len))) \<and>
    fst (eizo_get_value ll' mem_ok (snd (snd (eizo_get_value ll True hdev usage val len)))
           usage' val' len') \<noteq> Blocked \<and>
    fst (eizo_set_value ll' mem_ok (snd (snd (eizo_get_value ll True hdev usage val len)))
           usage' val' len') \<noteq> Blocked"
proof -
  let ?arm = "feature_request 3 (header usage (counter d) @ replicate 32 0) HID_REQ_SET_REPORT"
  obtain ret' st2 s2 where
    "ll s (feature_request 3 (stored_in (header usage (counter d) @ replicate 32 0) 39 stored)
         HID_REQ_GET_REPORT) = (ret', st2, s2)"
    using prod_cases3 by blast
  with assms have res: "eizo_get_value ll True hdev usage val len =
    (Returned ret, val,
     hdev\<lparr>ll_state := s, ll_requests := ll_requests hdev @ [?arm],
          klog := klog hdev @ [Failed_set_report ret]\<rparr>)"
    by (simp add: get_value_valid)
  have free: "\<not> token_held (snd (snd (eizo_get_value ll True hdev usage val len)))"
    using assms(1,2) by (simp add: res token_held_def)
  have "fst (eizo_get_value ll' mem_ok (snd (snd (eizo_get_value ll True hdev usage val len)))
             usage' val' len') \<noteq> Blocked"
    using free by (rule get_value_not_blocked)
  moreover have "fst (eizo_set_value ll' mem_ok (snd (snd (eizo_get_value ll True hdev usage val len)))
             usage' val' len') \<noteq> Blocked"
    using free by (rule set_value_not_blocked)
  ultimately show ?thesis
    using res free by (simp add: feature_request_def)
qed

theorem get_value_arm_failure_witness:
  "eizo_get_value stalled_ll True probed_device 1 [7, 7] 2 =
     (Returned (- 32), [7, 7],
      probed_device\<lparr>ll_requests :=
          [\<lparr>rq_reportnum = 3, rq_buf = [0, 1, 0, 0, 0, 1, 0] @ replicate 32 0,
            rq_len = 39, rq_rtype = HID_FEATURE_REPORT, rq_reqtype = HID_REQ_SET_REPORT\<rparr>],
        klog := [Failed_set_report (- 32)]\<rparr>)"
  using get_value_arm_failure [of probed_device "\<lparr>lock = False, counter = 1\<rparr>" stalled_ll 1
      "- 32" "[]" "[]" "[7, 7]" 2]
  by (simp add: probed_device_def hid_set_drvdata_def eizo_data_init_def stalled_ll_def header_def)

text \<open>
  C5. Neither function returns while holding the exclusive token. Whatever the
  arguments, the transport's behaviour and the allocator's answer: when a write or a
  read returns, with a result or with an error, the token is not held and the session
  is as the call found it, so the next call does not wait for the token.
\<close>

theorem token_released_on_return:
  "(eizo_set_value ll mem_ok hdev usage val len = (Returned r, hdev') \<longrightarrow>
      \<not> token_held hdev' \<and> driver_data hdev' = driver_data hdev \<and>
      fst (eizo_set_value ll2 mem_ok2 hdev' usage2 val2 len2) \<noteq> Blocked \<and>
      fst (eizo_get_value ll2 mem_ok2 hdev' usage2 val2 len2) \<noteq> Blocked) \<and>
   (eizo_get_value ll mem_ok hdev usage val len = (Returned r, val', hdev'') \<longrightarrow>
      \<not> token_held hdev'' \<and> driver_data hdev'' = driver_data hdev \<and>
      fst (eizo_set_value ll2 mem_ok2 hdev'' usage2 val2 len2) \<noteq> Blocked \<and>
      fst (eizo_get_value ll2 mem_ok2 hdev'' usage2 val2 len2) \<noteq> Blocked)"
proof -
  have set_free: "\<not> token_held hdev'"
    if "eizo_set_value ll mem_ok hdev usage val len = (Returned r, hdev')"
    using that
    by (auto simp add: eizo_set_value_def hid_get_drvdata_def Let_def mutex_lock_def
        mutex_unlock_def hid_err_def hid_hw_raw_request_def token_held_def kzalloc_def
        split: kptr.splits prod.splits option.splits if_splits)
  have get_free: "\<not> token_held hdev''"
    if "eizo_get_value ll mem_ok hdev usage val len = (Returned r, val', hdev'')"
    using that
    by (auto simp add: eizo_get_value_def hid_get_drvdata_def Let_def mutex_lock_def
        mutex_unlock_def hid_err_def hid_hw_raw_request_def token_held_def kzalloc_def
        split: kptr.splits prod.splits option.splits if_splits)
  show ?thesis
    using set_free get_free set_value_session [of ll mem_ok hdev usage val len "Returned r" hdev']
      get_value_session [of ll mem_ok hdev usage val len "Returned r" val' hdev'']
    by (simp add: set_value_not_blocked get_value_not_blocked)
qed

theorem token_released_on_return_witness:
  "eizo_set_value stalled_ll True probed_device 1 [0xAA, 0xBB] 2 =
     (Returned (- 32),
      probed_device\<lparr>ll_requests :=
          [feature_request 2 ([0, 1, 0, 0, 0, 1, 0, 0xAA, 0xBB] @ replicate 30 0) HID_REQ_SET_REPORT],
        klog := [Failed_set_report (- 32)]\<rparr>) \<and>
   \<not> token_held (probed_device\<lparr>ll_requests :=
          [feature_request 2 ([0, 1, 0, 0, 0, 1, 0, 0xAA, 0xBB] @ replicate 30 0) HID_REQ_SET_REPORT],
        klog := [Failed_set_report (- 32)]\<rparr>) \<and>
   eizo_get_value echo_ll True probed_device 1 [7, 7] 2 =
     (Returned 0, [0, 0],
      probed_device\<lparr>ll_requests :=
          [feature_request 3 ([0, 1, 0, 0, 0, 1, 0] @ replicate 32 0) HID_REQ_SET_REPORT,
           feature_request 3 ([0, 1, 0, 0, 0, 1, 0] @ replicate 32 0) HID_REQ_GET_REPORT]\<rparr>) \<and>
   \<not> token_held (probed_device\<lparr>ll_requests :=
          [feature_request 3 ([0, 1, 0, 0, 0, 1, 0] @ replicate 32 0) HID_REQ_SET_REPORT,
           feature_request 3 ([0, 1, 0, 0, 0, 1, 0] @ replicate 32 0) HID_REQ_GET_REPORT]\<rparr>)"
proof -
  have session: "driver_data probed_device = Obj \<lparr>lock = False, counter = 1\<rparr>"
    by (simp add: probed_device_def hid_set_drvdata_def eizo_data_init_def)
  have set: "eizo_set_value stalled_ll True probed_device 1 [0xAA, 0xBB] 2 =
     (Returned (- 32),
      probed_device\<lparr>ll_requests :=
          [feature_request 2 ([0, 1, 0, 0, 0, 1, 0, 0xAA, 0xBB] @ replicate 30 0) HID_REQ_SET_REPORT],
        klog := [Failed_set_report (- 32)]\<rparr>)"
    using set_value_valid [of probed_device "\<lparr>lock = False, counter = 1\<rparr>" 2
      "[0xAA, 0xBB]" stalled_ll 1 "- 32" "[]" "[]"] session
    by (simp add: probed_device_def hid_set_drvdata_def stalled_ll_def header_def)
  have get: "eizo_get_value echo_ll True probed_device 1 [7, 7] 2 =
     (Returned 0, [0, 0],
      probed_device\<lparr>ll_requests :=
          [feature_request 3 ([0, 1, 0, 0, 0, 1, 0] @ replicate 32 0) HID_REQ_SET_REPORT,
           feature_request 3 ([0, 1, 0, 0, 0, 1, 0] @ replicate 32 0) HID_REQ_GET_REPORT]\<rparr>)"
    using get_value_valid [of probed_device "\<lparr>lock = False, counter = 1\<rparr>" echo_ll 1
      39 "[]" "[]" 39 "header 1 1" "[]" "[7, 7]" 2] session
    by (simp add: probed_device_def hid_set_drvdata_def echo_ll_def feature_request_def
        stored_in_def header_def Let_def numeral_2_eq_2)
  have "\<not> token_held (probed_device\<lparr>ll_requests :=
          [feature_request 2 ([0, 1, 0, 0, 0, 1, 0, 0xAA, 0xBB] @ replicate 30 0) HID_REQ_SET_REPORT],
        klog := [Failed_set_report (- 32)]\<rparr>)"
    using token_released_on_return [THEN conjunct1, THEN mp, OF set] by (rule conjunct1)
  moreover have "\<not> token_held (probed_device\<lparr>ll_requests :=
          [feature_request 3 ([0, 1, 0, 0, 0, 1, 0] @ replicate 32 0) HID_REQ_SET_REPORT,
           feature_request 3 ([0, 1, 0, 0, 0, 1, 0] @ replicate 32 0) HID_REQ_GET_REPORT]\<rparr>)"
    using token_released_on_return [THEN conjunct2, THEN mp, OF get] by (rule conjunct1)
  ultimately show ?thesis
    using set get by (intro conjI)
qed

text \<open>
  C10. A read that does not return 0 leaves the caller's buffer as it was, wherever it
  stopped. The buffer differs from what it was only when the read returned 0 after
  exactly two transport calls, the arm and the fetch, both with a status that is not
  negative.
\<close>

theorem get_value_error_leaves_buffer:
  assumes "eizo_get_value ll mem_ok hdev usage val len = (oc, val', hdev')"
  shows "(oc \<noteq> Returned 0 \<longrightarrow> val' = val) \<and>
         (val' \<noteq> val \<longrightarrow>
            oc = Returned 0 \<and>
            (\<exists>arm fetch. ll_requests hdev' = ll_requests hdev @ [arm, fetch] \<and>
               rq_reqtype arm = HID_REQ_SET_REPORT \<and> rq_reqtype fetch = HID_REQ_GET_REPORT \<and>
               0 \<le> fst (ll (ll_state hdev) arm) \<and>
               0 \<le> fst (ll (snd (snd (ll (ll_state hdev) arm))) fetch)))"
  using assms
  by (auto simp add: eizo_get_value_def hid_get_drvdata_def Let_def mutex_lock_def
      mutex_unlock_def hid_err_def hid_hw_raw_request_def
      split: kptr.splits prod.splits option.splits if_splits)

theorem get_value_error_leaves_buffer_witness:
  "fst (eizo_get_value stalled_ll True probed_device 1 [7, 7] 2) = Returned (- 32) \<and>
   fst (snd (eizo_get_value stalled_ll True probed_device 1 [7, 7] 2)) = [7, 7] \<and>
   fst (eizo_get_value echo_ll True probed_device 1 [7, 7] 2) = Returned 0 \<and>
   fst (snd (eizo_get_value echo_ll True probed_device 1 [7, 7] 2)) = [0, 0]"
proof -
  let ?run = "eizo_get_value stalled_ll True probed_device 1 [7, 7] 2"
  have session: "driver_data probed_device = Obj \<lparr>lock = False, counter = 1\<rparr>"
    by (simp add: probed_device_def hid_set_drvdata_def eizo_data_init_def)
  have oc: "fst ?run = Returned (- 32)"
    using get_value_valid [of probed_device "\<lparr>lock = False, counter = 1\<rparr>" stalled_ll 1
      "- 32" "[]" "[]" "- 32" "[]" "[]" "[7, 7]" 2] session
    by (simp add: probed_device_def hid_set_drvdata_def stalled_ll_def)
  have "?run = (fst ?run, fst (snd ?run), snd (snd ?run))"
    by simp
  from get_value_error_leaves_buffer [OF this] oc
  have kept: "fst (snd ?run) = [7, 7]"
    by simp
  have "eizo_get_value echo_ll True probed_device 1 [7, 7] 2 =
     (Returned 0, [0, 0],
      probed_device\<lparr>ll_requests :=
          [feature_request 3 ([0, 1, 0, 0, 0, 1, 0] @ replicate 32 0) HID_REQ_SET_REPORT,
           feature_request 3 ([0, 1, 0, 0, 0, 1, 0] @ replicate 32 0) HID_REQ_GET_REPORT]\<rparr>)"
    using get_value_valid [of probed_device "\<lparr>lock = False, counter = 1\<rparr>" echo_ll 1
      39 "[]" "[]" 39 "header 1 1" "[]" "[7, 7]" 2] session
    by (simp add: probed_device_def hid_set_drvdata_def echo_ll_def feature_request_def
        stored_in_def header_def Let_def numeral_2_eq_2)
  with oc kept show ?thesis
    by simp
qed

subsection \<open>Allocation failure\<close>

text \<open>
  The test \<^verbatim>\<open>IS_ERR(report)\<close> of lines 29 and 72 never fires on what \<^verbatim>\<open>kzalloc\<close>
  returns, so neither function has a path that returns \<^verbatim>\<open>-ENOMEM\<close>.
\<close>

lemma kzalloc_not_IS_ERR: "\<not> IS_ERR (kzalloc mem_ok n)"
  by (simp add: kzalloc_def)

lemma never_ENOMEM:
  assumes "\<And>s rq. fst (ll s rq) \<noteq> - ENOMEM"
  shows "fst (eizo_set_value ll mem_ok hdev usage val len) \<noteq> Returned (- ENOMEM)"
    and "fst (eizo_get_value ll mem_ok hdev usage val len) \<noteq> Returned (- ENOMEM)"
proof -
  have ll: "ll s rq = (r, st, s') \<Longrightarrow> r \<noteq> - 12" for s rq r st s'
    using assms [of s rq] by (simp add: ENOMEM_def)
  show "fst (eizo_set_value ll mem_ok hdev usage val len) \<noteq> Returned (- ENOMEM)"
    by (auto simp add: eizo_set_value_def hid_get_drvdata_def Let_def kzalloc_def ENOMEM_def
        ENODATA_def hid_hw_raw_request_def dest: ll
        split: kptr.splits prod.splits option.splits if_splits)
  show "fst (eizo_get_value ll mem_ok hdev usage val len) \<noteq> Returned (- ENOMEM)"
    by (auto simp add: eizo_get_value_def hid_get_drvdata_def Let_def kzalloc_def ENOMEM_def
        ENODATA_def hid_hw_raw_request_def dest: ll
        split: kptr.splits prod.splits option.splits if_splits)
qed

text \<open>
  C8 (the code departs from the claim). When the frame cannot be allocated,
  \<^verbatim>\<open>kzalloc\<close> returns NULL, which \<^verbatim>\<open>IS_ERR\<close> does not recognise: on a usable session
  both functions take the token and then store the first header byte through the NULL
  pointer. There is no \<^verbatim>\<open>-ENOMEM\<close> result, the token stays held, and no transport call
  is made.
\<close>

theorem alloc_failure_faults_holding_token:
  assumes "driver_data hdev = Obj d" and "\<not> lock d"
  shows "eizo_set_value ll False hdev usage val len =
           (Faulted NullDeref, hdev\<lparr>driver_data := Obj (d\<lparr>lock := True\<rparr>)\<rparr>) \<and>
         eizo_get_value ll False hdev usage val len =
           (Faulted NullDeref, val, hdev\<lparr>driver_data := Obj (d\<lparr>lock := True\<rparr>)\<rparr>) \<and>
         token_held (hdev\<lparr>driver_data := Obj (d\<lparr>lock := True\<rparr>)\<rparr>)"
  using assms
  by (simp add: eizo_set_value_def eizo_get_value_def hid_get_drvdata_def kzalloc_def
      mutex_lock_def token_held_def)

theorem alloc_failure_faults_holding_token_witness:
  "eizo_set_value stalled_ll False probed_device 1 [0xAA, 0xBB] 2 =
     (Faulted NullDeref, probed_device\<lparr>driver_data := Obj \<lparr>lock = True, counter = 1\<rparr>\<rparr>) \<and>
   eizo_get_value stalled_ll False probed_device 1 [7, 7] 2 =
     (Faulted NullDeref, [7, 7], probed_device\<lparr>driver_data := Obj \<lparr>lock = True, counter = 1\<rparr>\<rparr>)"
proof -
  have "driver_data probed_device = Obj \<lparr>lock = False, counter = 1\<rparr>"
    by (simp add: probed_device_def hid_set_drvdata_def eizo_data_init_def)
  moreover have "\<not> lock \<lparr>lock = False, counter = 1 :: u16\<rparr>"
    by simp
  ultimately have
    "eizo_set_value stalled_ll False probed_device 1 [0xAA, 0xBB] 2 =
       (Faulted NullDeref,
        probed_device\<lparr>driver_data := Obj (\<lparr>lock = False, counter = 1\<rparr>\<lparr>lock := True\<rparr>)\<rparr>)"
    and "eizo_get_value stalled_ll False probed_device 1 [7, 7] 2 =
       (Faulted NullDeref, [7, 7],
        probed_device\<lparr>driver_data := Obj (\<lparr>lock = False, counter = 1\<rparr>\<lparr>lock := True\<rparr>)\<rparr>)"
    using alloc_failure_faults_holding_token by blast+
  then show ?thesis by simp
qed

subsection \<open>Payloads longer than 32 bytes\<close>

text \<open>
  Neither function produces \<^verbatim>\<open>-EINVAL\<close> of its own: it can only be a status that
  the transport returned.
\<close>

lemma never_EINVAL:
  assumes "\<And>s rq. fst (ll s rq) \<noteq> - EINVAL"
  shows "fst (eizo_set_value ll mem_ok hdev usage val len) \<noteq> Returned (- EINVAL)"
    and "fst (eizo_get_value ll mem_ok hdev usage val len) \<noteq> Returned (- EINVAL)"
proof -
  have ll: "ll s rq = (r, st, s') \<Longrightarrow> r \<noteq> - 22" for s rq r st s'
    using assms [of s rq] by (simp add: EINVAL_def)
  show "fst (eizo_set_value ll mem_ok hdev usage val len) \<noteq> Returned (- EINVAL)"
    by (auto simp add: eizo_set_value_def hid_get_drvdata_def Let_def kzalloc_def EINVAL_def
        ENODATA_def ENOMEM_def hid_hw_raw_request_def dest: ll
        split: kptr.splits prod.splits option.splits if_splits)
  show "fst (eizo_get_value ll mem_ok hdev usage val len) \<noteq> Returned (- EINVAL)"
    by (auto simp add: eizo_get_value_def hid_get_drvdata_def Let_def kzalloc_def EINVAL_def
        ENODATA_def ENOMEM_def hid_hw_raw_request_def dest: ll
        split: kptr.splits prod.splits option.splits if_splits)
qed

text \<open>
  C1 as stated fails: neither function has a length check or an InvalidArgument
  (\<^verbatim>\<open>-EINVAL\<close>) result. With 33 bytes on a probed device and a stalled transport, the
  read takes the token, issues the arm call and returns the transport's status
  \<^verbatim>\<open>-EPIPE\<close>; the write takes the token and runs past the frame while copying.
\<close>

theorem long_payload_not_rejected:
  "eizo_get_value stalled_ll True probed_device 1 (replicate 33 0) 33 =
     (Returned (- 32), replicate 33 0,
      probed_device\<lparr>ll_requests :=
          [feature_request 3 ([0, 1, 0, 0, 0, 1, 0] @ replicate 32 0) HID_REQ_SET_REPORT],
        klog := [Failed_set_report (- 32)]\<rparr>) \<and>
   Returned (- 32) \<noteq> Returned (- EINVAL) \<and>
   eizo_set_value stalled_ll True probed_device 1 (replicate 33 0) 33 =
     (Faulted OutOfBounds, probed_device\<lparr>driver_data := Obj \<lparr>lock = True, counter = 1\<rparr>\<rparr>)"
proof -
  have "eizo_get_value stalled_ll True probed_device 1 (replicate 33 0) 33 =
     (Returned (- 32), replicate 33 0,
      probed_device\<lparr>ll_requests :=
          [feature_request 3 ([0, 1, 0, 0, 0, 1, 0] @ replicate 32 0) HID_REQ_SET_REPORT],
        klog := [Failed_set_report (- 32)]\<rparr>)"
    using get_value_valid [of probed_device "\<lparr>lock = False, counter = 1\<rparr>" stalled_ll 1
      "- 32" "[]" "[]" "- 32" "[]" "[]" "replicate 33 0" 33]
    by (simp add: probed_device_def hid_set_drvdata_def eizo_data_init_def stalled_ll_def header_def)
  moreover have "eizo_set_value stalled_ll True probed_device 1 (replicate 33 0) 33 =
     (Faulted OutOfBounds, probed_device\<lparr>driver_data := Obj \<lparr>lock = True, counter = 1\<rparr>\<rparr>)"
    by (simp add: eizo_set_value_def hid_get_drvdata_def kzalloc_def mutex_lock_def
        put_header_zeroed memcpy_payload_overrun probed_device_def hid_set_drvdata_def
        eizo_data_init_def)
  ultimately show ?thesis
    by (simp add: EINVAL_def)
qed

text \<open>
  C1, amended. For a payload length above 32, on a usable session with an allocated
  frame, nothing is rejected: both functions take the token. The write then copies past
  the end of the 39-byte frame before any transport call. The read issues the arm call,
  and after a successful arm the fetch, with the frames of any other read; it returns
  the transport's status with the token released if one of them fails, and otherwise
  copies from past the end of the frame.
\<close>

theorem long_payload_not_validated:
  assumes "32 < len" and "driver_data hdev = Obj d" and "\<not> lock d"
    and "ll (ll_state hdev)
           (feature_request 3 (header usage (counter d) @ replicate 32 0) HID_REQ_SET_REPORT)
         = (ret, st1, s1)"
    and "ll s1 (feature_request 3
           (stored_in (header usage (counter d) @ replicate 32 0) 39 st1) HID_REQ_GET_REPORT)
         = (ret', st2, s2)"
  shows "eizo_set_value ll True hdev usage val len =
           (Faulted OutOfBounds, hdev\<lparr>driver_data := Obj (d\<lparr>lock := True\<rparr>)\<rparr>) \<and>
         eizo_get_value ll True hdev usage val len =
           (if ret < 0 then
              (Returned ret, val,
               hdev\<lparr>ll_state := s1,
                 ll_requests := ll_requests hdev @
                   [feature_request 3 (header usage (counter d) @ replicate 32 0) HID_REQ_SET_REPORT],
                 klog := klog hdev @ [Failed_set_report ret]\<rparr>)
            else if ret' < 0 then
              (Returned ret', val,
               hdev\<lparr>ll_state := s2,
                 ll_requests := ll_requests hdev @
                   [feature_request 3 (header usage (counter d) @ replicate 32 0) HID_REQ_SET_REPORT,
                    feature_request 3
                      (stored_in (header usage (counter d) @ replicate 32 0) 39 st1)
                      HID_REQ_GET_REPORT],
                 klog := klog hdev @ [Failed_get_report ret']\<rparr>)
            else
              (Faulted OutOfBounds, val,
               hdev\<lparr>driver_data := Obj (d\<lparr>lock := True\<rparr>), ll_state := s2,
                 ll_requests := ll_requests hdev @
                   [feature_request 3 (header usage (counter d) @ replicate 32 0) HID_REQ_SET_REPORT,
                    feature_request 3
                      (stored_in (header usage (counter d) @ replicate 32 0) 39 st1)
                      HID_REQ_GET_REPORT]\<rparr>))"
proof -
  have "eizo_set_value ll True hdev usage val len =
      (Faulted OutOfBounds, hdev\<lparr>driver_data := Obj (d\<lparr>lock := True\<rparr>)\<rparr>)"
    using assms(1-3)
    by (simp add: eizo_set_value_def hid_get_drvdata_def kzalloc_def mutex_lock_def
        put_header_zeroed memcpy_payload_overrun)
  then show ?thesis
    using assms by (simp add: get_value_valid Let_def)
qed

theorem long_payload_not_validated_witness:
  "eizo_set_value echo_ll True probed_device 1 (replicate 33 0) 33 =
     (Faulted OutOfBounds, probed_device\<lparr>driver_data := Obj \<lparr>lock = True, counter = 1\<rparr>\<rparr>) \<and>
   fst (eizo_get_value echo_ll True probed_device 1 (replicate 33 0) 33) = Faulted OutOfBounds"
  using long_payload_not_validated [of 33 probed_device "\<lparr>lock = False, counter = 1\<rparr>"
      echo_ll 1 39 "[]" "[]" 39 "header 1 1" "[]" "replicate 33 0"]
  by (simp add: probed_device_def hid_set_drvdata_def eizo_data_init_def echo_ll_def
      feature_request_def stored_in_def length_header)

subsection \<open>Round trip\<close>

text \<open>
  C3. Against the echoing transport, on a usable session with allocated frames: for
  every usage and every length of at most 32 bytes, a write of \<open>len\<close> bytes followed by
  a read of \<open>len\<close> bytes with the same usage both return 0, and the read puts exactly
  the written bytes in the first \<open>len\<close> places of the caller's buffer (the rest of the
  buffer is as it was).
\<close>

theorem set_get_round_trip:
  assumes "driver_data hdev = Obj d" and "\<not> lock d"
    and "len \<le> 32" and "len \<le> length val" and "len \<le> length out"
  shows "fst (eizo_set_value echo_ll True hdev usage val len) = Returned 0 \<and>
         fst (eizo_get_value echo_ll True (snd (eizo_set_value echo_ll True hdev usage val len))
                usage out len) = Returned 0 \<and>
         fst (snd (eizo_get_value echo_ll True (snd (eizo_set_value echo_ll True hdev usage val len))
                usage out len)) = take len val @ drop len out"
proof -
  let ?payload = "take len val @ replicate (32 - len) 0"
  let ?wr = "feature_request 2 (header usage (counter d) @ ?payload) HID_REQ_SET_REPORT"
  let ?frame = "header usage (counter d) @ replicate 32 0"
  let ?hdev1 = "hdev\<lparr>ll_state := ?payload, ll_requests := ll_requests hdev @ [?wr]\<rparr>"
  have wr: "echo_ll (ll_state hdev) ?wr = (39, [], ?payload)"
    by (simp add: echo_ll_def feature_request_def length_header)
  have set: "eizo_set_value echo_ll True hdev usage val len = (Returned 0, ?hdev1)"
    using set_value_valid [where ll = echo_ll, OF assms(1-4) wr] by simp
  have arm: "echo_ll (ll_state ?hdev1) (feature_request 3 ?frame HID_REQ_SET_REPORT)
      = (39, [], ?payload)"
    by (simp add: echo_ll_def feature_request_def)
  have r1: "stored_in ?frame 39 [] = ?frame"
    by (simp add: stored_in_def)
  have fetch: "echo_ll ?payload (feature_request 3 (stored_in ?frame 39 []) HID_REQ_GET_REPORT)
      = (39, header usage (counter d) @ ?payload, ?payload)"
    by (simp add: r1 echo_ll_def feature_request_def length_header)
  have r2: "stored_in (stored_in ?frame 39 []) 39 (header usage (counter d) @ ?payload)
      = header usage (counter d) @ ?payload"
    using assms(3,4) by (simp add: r1 stored_in_def length_header)
  have d1: "driver_data ?hdev1 = Obj d"
    using assms(1) by simp
  have get: "eizo_get_value echo_ll True ?hdev1 usage out len =
      (Returned 0, take len val @ drop len out,
       ?hdev1\<lparr>ll_state := ?payload,
         ll_requests := ll_requests ?hdev1 @
           [feature_request 3 ?frame HID_REQ_SET_REPORT,
            feature_request 3 (stored_in ?frame 39 []) HID_REQ_GET_REPORT]\<rparr>)"
    using get_value_valid [where ll = echo_ll, OF d1 assms(2) arm fetch, of out len] assms(3-5)
    by (simp add: Let_def r2 length_header)
  show ?thesis
    unfolding set snd_conv get by simp
qed

theorem set_get_round_trip_witness:
  "fst (eizo_set_value echo_ll True probed_device 1 [0xAA, 0xBB] 2) = Returned 0 \<and>
   fst (eizo_get_value echo_ll True (snd (eizo_set_value echo_ll True probed_device 1 [0xAA, 0xBB] 2))
          1 [7, 7, 7] 2) = Returned 0 \<and>
   fst (snd (eizo_get_value echo_ll True (snd (eizo_set_value echo_ll True probed_device 1 [0xAA, 0xBB] 2))
          1 [7, 7, 7] 2)) = [0xAA, 0xBB, 7]"
  using set_get_round_trip [of probed_device "\<lparr>lock = False, counter = 1\<rparr>" 2 "[0xAA, 0xBB]"
      "[7, 7, 7]" 1]
  by (simp add: probed_device_def hid_set_drvdata_def eizo_data_init_def)

text \<open>
  The echo has to tell a write from the arm call of a read: the frame of the arm call
  has an all-zero payload region, so a transport that remembered the region of every
  set-report would answer a read with zeros.
\<close>

lemma get_value_first_request:
  assumes "driver_data hdev = Obj d" and "\<not> lock d"
  shows "\<exists>rest. ll_requests (snd (snd (eizo_get_value ll True hdev usage val len))) =
           ll_requests hdev @
             feature_request 3 (header usage (counter d) @ replicate 32 0) HID_REQ_SET_REPORT # rest"
proof -
  obtain ret st1 s1 where arm: "ll (ll_state hdev)
      (feature_request 3 (header usage (counter d) @ replicate 32 0) HID_REQ_SET_REPORT)
      = (ret, st1, s1)"
    using prod_cases3 by blast
  obtain ret' st2 s2 where fetch: "ll s1 (feature_request 3
      (stored_in (header usage (counter d) @ replicate 32 0) 39 st1) HID_REQ_GET_REPORT)
      = (ret', st2, s2)"
    using prod_cases3 by blast
  show ?thesis
    by (simp add: get_value_valid [where ll = ll, OF assms arm fetch] Let_def)
qed

subsection \<open>The sequence counter\<close>

lemma raw_event_driver_data:
  "eizo_hid_driver_raw_event hdev report_id data sz = (oc, hdev') \<Longrightarrow>
   driver_data hdev' = driver_data hdev"
  by (auto simp add: eizo_hid_driver_raw_event_def hid_info_def Let_def split: if_splits)

text \<open>
  C7. The counter is 1 right after \<^verbatim>\<open>eizo_data_init\<close>. A write or a read, however
  it ends, leaves the stored counter as it was, and on a usable session with an
  allocated frame the request it issues first (for a write with a payload that fits)
  carries the stored counter in bytes 5-6, little-endian. Hence the counter is 1 in
  every reachable state of the device.
\<close>

theorem counter_always_one:
  "counter (eizo_data_init d0) = 1 \<and>
   (driver_data hdev = Obj d \<and> eizo_set_value ll mem_ok hdev usage val len = (oc, hdev') \<longrightarrow>
      (\<exists>d'. driver_data hdev' = Obj d' \<and> counter d' = counter d)) \<and>
   (driver_data hdev = Obj d \<and> eizo_get_value ll mem_ok hdev usage val len = (oc, val', hdev') \<longrightarrow>
      (\<exists>d'. driver_data hdev' = Obj d' \<and> counter d' = counter d)) \<and>
   (driver_data hdev = Obj d \<and> \<not> lock d \<and> len \<le> 32 \<and> len \<le> length val \<longrightarrow>
      (\<exists>rq. ll_requests (snd (eizo_set_value ll True hdev usage val len)) = ll_requests hdev @ [rq] \<and>
         le16 (rq_buf rq ! 5) (rq_buf rq ! 6) = counter d)) \<and>
   (driver_data hdev = Obj d \<and> \<not> lock d \<longrightarrow>
      (\<exists>rq rest. ll_requests (snd (snd (eizo_get_value ll True hdev usage val len))) =
           ll_requests hdev @ rq # rest \<and>
         le16 (rq_buf rq ! 5) (rq_buf rq ! 6) = counter d)) \<and>
   (reachable hdev \<longrightarrow> (\<exists>d. driver_data hdev = Obj d \<and> counter d = 1))"
proof -
  have init: "counter (eizo_data_init d0) = 1"
    by (simp add: eizo_data_init_def)
  have set_keeps: "\<exists>d'. driver_data hdev' = Obj d' \<and> counter d' = counter d"
    if "driver_data hdev = Obj d" "eizo_set_value ll mem_ok hdev usage val len = (oc, hdev')"
    for hdev hdev' :: "'a hid_device" and d ll mem_ok usage val len oc
    using set_value_session [OF that(2)] that(1) by blast
  have get_keeps: "\<exists>d'. driver_data hdev' = Obj d' \<and> counter d' = counter d"
    if "driver_data hdev = Obj d" "eizo_get_value ll mem_ok hdev usage val len = (oc, val', hdev')"
    for hdev hdev' :: "'a hid_device" and d ll mem_ok usage val len oc val'
    using get_value_session [OF that(2)] that(1) by blast
  have set_frame: "\<exists>rq. ll_requests (snd (eizo_set_value ll True hdev usage val len)) =
        ll_requests hdev @ [rq] \<and> le16 (rq_buf rq ! 5) (rq_buf rq ! 6) = counter d"
    if "driver_data hdev = Obj d" "\<not> lock d" "len \<le> 32" "len \<le> length val"
  proof -
    let ?rq = "feature_request 2 (header usage (counter d) @ take len val @ replicate (32 - len) 0)
                 HID_REQ_SET_REPORT"
    obtain ret stored s where "ll (ll_state hdev) ?rq = (ret, stored, s)"
      using prod_cases3 by blast
    from set_value_valid [where ll = ll, OF that this]
    have "ll_requests (snd (eizo_set_value ll True hdev usage val len)) = ll_requests hdev @ [?rq]"
      by simp
    moreover have "le16 (rq_buf ?rq ! 5) (rq_buf ?rq ! 6) = counter d"
      using header_counter [of usage "counter d"]
      by (simp add: feature_request_def nth_append length_header)
    ultimately show ?thesis by blast
  qed
  have get_frame: "\<exists>rq rest. ll_requests (snd (snd (eizo_get_value ll True hdev usage val len))) =
        ll_requests hdev @ rq # rest \<and> le16 (rq_buf rq ! 5) (rq_buf rq ! 6) = counter d"
    if "driver_data hdev = Obj d" "\<not> lock d"
  proof -
    let ?rq = "feature_request 3 (header usage (counter d) @ replicate 32 0) HID_REQ_SET_REPORT"
    from get_value_first_request [OF that, of ll usage val len]
    obtain rest where "ll_requests (snd (snd (eizo_get_value ll True hdev usage val len))) =
        ll_requests hdev @ ?rq # rest"
      by blast
    moreover have "le16 (rq_buf ?rq ! 5) (rq_buf ?rq ! 6) = counter d"
      using header_counter [of usage "counter d"]
      by (simp add: feature_request_def nth_append length_header)
    ultimately show ?thesis by blast
  qed
  have inv: "\<exists>d. driver_data hdev = Obj d \<and> counter d = 1" if "reachable hdev"
    using that
  proof (induction rule: reachable.induct)
    case (probed hdev d)
    then show ?case by (simp add: hid_set_drvdata_def eizo_data_init_def)
  next
    case (after_set hdev ll mem_ok usage val len oc hdev')
    then show ?case using set_keeps by metis
  next
    case (after_get hdev ll mem_ok usage val len oc val' hdev')
    then show ?case using get_keeps by metis
  next
    case (after_event hdev report_id data sz oc hdev')
    then show ?case using raw_event_driver_data by metis
  qed
  show ?thesis
    using init set_keeps get_keeps set_frame get_frame inv by blast
qed

theorem counter_always_one_witness:
  "reachable probed_device \<and>
   reachable (snd (eizo_set_value stalled_ll True probed_device 1 [0xAA, 0xBB] 2)) \<and>
   (\<exists>d. driver_data (snd (eizo_set_value stalled_ll True probed_device 1 [0xAA, 0xBB] 2)) = Obj d \<and>
        counter d = 1)"
proof -
  have start: "reachable probed_device"
    unfolding probed_device_def by (rule reachable.probed)
  have step: "reachable (snd (eizo_set_value stalled_ll True probed_device 1 [0xAA, 0xBB] 2))"
    by (rule reachable.after_set [OF start, where oc = "fst (eizo_set_value stalled_ll True
          probed_device 1 [0xAA, 0xBB] 2)"]) simp
  with counter_always_one
    [where hdev = "snd (eizo_set_value stalled_ll True probed_device 1 [0xAA, 0xBB] 2)"]
  show ?thesis
    using start by blast
qed

subsection \<open>Notifications\<close>

lemma or_push_bit_add:
  fixes a b :: "'a::len word"
  assumes "\<And>n. bit a n \<Longrightarrow> n < k"
  shows "a OR push_bit k b = a + push_bit k b"
proof (rule disjunctive_add_eq_or [symmetric], rule bit_eqI)
  fix n
  show "bit (a AND push_bit k b) n = bit (0 :: 'a word) n"
    using assms [of n] by (auto simp add: bit_and_iff bit_push_bit_iff)
qed

lemma or2_bytes:
  "(ucast (b0::u8) OR push_bit 8 (ucast (b1::u8)) :: 32 word) = ucast b0 + push_bit 8 (ucast b1)"
  by (rule or_push_bit_add) (simp add: bit_word_ucast_iff)

lemma or3_bytes:
  "((ucast (b0::u8) OR push_bit 8 (ucast (b1::u8))) OR push_bit 16 (ucast (b2::u8)) :: 32 word)
     = ucast b0 + push_bit 8 (ucast b1) + push_bit 16 (ucast b2)"
  unfolding or2_bytes [symmetric]
  by (rule or_push_bit_add) (auto simp add: bit_or_iff bit_push_bit_iff bit_word_ucast_iff)

lemma or4_bytes:
  "(((ucast (b0::u8) OR push_bit 8 (ucast (b1::u8))) OR push_bit 16 (ucast (b2::u8)))
      OR push_bit 24 (ucast (b3::u8)) :: 32 word)
     = ucast b0 + push_bit 8 (ucast b1) + push_bit 16 (ucast b2) + push_bit 24 (ucast b3)"
  unfolding or3_bytes [symmetric]
  by (rule or_push_bit_add) (auto simp add: bit_or_iff bit_push_bit_iff bit_word_ucast_iff)

lemma le32_or:
  "(((ucast (b0::u8) OR push_bit 8 (ucast (b1::u8))) OR push_bit 16 (ucast (b2::u8)))
      OR push_bit 24 (ucast (b3::u8)) :: 32 word) = le32 b0 b1 b2 b3"
  unfolding or4_bytes le32_def
  by (simp add: push_bit_eq_mult)

lemma ucast_or_down:
  "(ucast (ucast (b0::u8) OR push_bit 8 (ucast (b1::u8)) :: 32 word) :: u16) =
     ucast b0 OR push_bit 8 (ucast b1)"
  by (rule bit_word_eqI) (auto simp add: bit_word_ucast_iff bit_or_iff bit_push_bit_iff)

lemma or2_bytes_16:
  "(ucast (b0::u8) OR push_bit 8 (ucast (b1::u8)) :: 16 word) = ucast b0 + push_bit 8 (ucast b1)"
  by (rule or_push_bit_add) (simp add: bit_word_ucast_iff)

lemma le16_or:
  "(ucast (ucast (b0::u8) OR push_bit 8 (ucast (b1::u8)) :: 32 word) :: u16) = le16 b0 b1"
  unfolding ucast_or_down or2_bytes_16 le16_def
  by (simp add: push_bit_eq_mult)

text \<open>
  C9. For a report with identifier 2 or 3 whose bytes 0 to 10 exist, the handler logs
  byte 0 as the event id, bytes 1-4 as the 32-bit little-endian usage, bytes 5-6 as the
  16-bit little-endian counter and bytes 7-10 as the 32-bit little-endian value, and
  returns 0. For any other identifier it logs the identifier alone. In every case the
  session, the transport state and the list of requests are as they were.
\<close>

theorem raw_event_decodes:
  "(10 < length data \<and> (report_id = 2 \<or> report_id = 3) \<longrightarrow>
      eizo_hid_driver_raw_event hdev report_id data sz =
        (Returned 0,
         hdev\<lparr>klog := klog hdev @
           [Event (data ! 0)
              (le32 (data ! 1) (data ! 2) (data ! 3) (data ! 4))
              (le16 (data ! 5) (data ! 6))
              (le32 (data ! 7) (data ! 8) (data ! 9) (data ! 10))]\<rparr>)) \<and>
   (report_id \<noteq> 2 \<and> report_id \<noteq> 3 \<longrightarrow>
      eizo_hid_driver_raw_event hdev report_id data sz =
        (Returned 0, hdev\<lparr>klog := klog hdev @ [Event_id report_id]\<rparr>)) \<and>
   driver_data (snd (eizo_hid_driver_raw_event hdev report_id data sz)) = driver_data hdev \<and>
   ll_state (snd (eizo_hid_driver_raw_event hdev report_id data sz)) = ll_state hdev \<and>
   ll_requests (snd (eizo_hid_driver_raw_event hdev report_id data sz)) = ll_requests hdev"
  by (simp add: eizo_hid_driver_raw_event_def hid_info_def Let_def le32_or le16_or)

theorem raw_event_decodes_witness:
  "eizo_hid_driver_raw_event probed_device 2
     [5, 0x01, 0x00, 0x00, 0x00, 0x01, 0x00, 0x78, 0x56, 0x34, 0x12] 11 =
     (Returned 0, probed_device\<lparr>klog := [Event 5 1 1 0x12345678]\<rparr>) \<and>
   eizo_hid_driver_raw_event probed_device 7 [] 0 =
     (Returned 0, probed_device\<lparr>klog := [Event_id 7]\<rparr>)"
  using raw_event_decodes [of "[5, 0x01, 0x00, 0x00, 0x00, 0x01, 0x00, 0x78, 0x56, 0x34, 0x12]"
      2 probed_device 11]
    raw_event_decodes [of "[]" 7 probed_device 0]
  by (simp add: le32_def le16_def probed_device_def hid_set_drvdata_def)

end
